theory Spec2Isabelle
  imports Main "HOL-Library.Word"
begin

section \<open>Python values, exceptions and the runtime library\<close>

text \<open>
  The pipeline works on loosely typed values: the result of \<^verbatim>\<open>json.loads\<close> and the
  dictionaries built from it.  A Python \<^verbatim>\<open>str\<close> is represented by its UTF-8 bytes, a
  \<^verbatim>\<open>bytes\<close> object by its bytes, an \<^verbatim>\<open>int\<close> by an unbounded integer, a \<^verbatim>\<open>float\<close> by
  its 64 bits, and a \<^verbatim>\<open>dict\<close> by an association list in insertion order (the first
  entry of a key is the one that counts).
\<close>

datatype pyval =
    PyNone
  | PyBool bool
  | PyInt int
  | PyFloat "64 word"
  | PyStr string
  | PyList "pyval list"
  | PyDict "(string \<times> pyval) list"

text \<open>
  Exceptions are values.  Only subclasses of \<^verbatim>\<open>Exception\<close> are modelled;
  \<^verbatim>\<open>JSONDecodeError\<close> and \<^verbatim>\<open>UnicodeError\<close> are subclasses of \<^verbatim>\<open>ValueError\<close>.
\<close>

datatype exn =
    JSONDecodeError
  | UnicodeError
  | ValueError
  | TypeError
  | AttributeError
  | KeyError
  | HTTPException nat string
  | OtherException string

fun is_ValueError :: "exn \<Rightarrow> bool" where
  "is_ValueError JSONDecodeError = True"
| "is_ValueError UnicodeError = True"
| "is_ValueError ValueError = True"
| "is_ValueError _ = False"

text \<open>Sequencing of two steps, the first of which may raise.\<close>

definition then_do :: "exn + 'a \<Rightarrow> ('a \<Rightarrow> exn + 'b) \<Rightarrow> exn + 'b" where
  "then_do m f = (case m of Inl e \<Rightarrow> Inl e | Inr x \<Rightarrow> f x)"

text \<open>
  What the code takes from the Python runtime and its standard library, as
  parameters: UTF-8 decoding and encoding, the JSON parser, HMAC-SHA256 (key, then
  message) as a lower-case hex digest, \<^verbatim>\<open>str()\<close> of a float, list or dict, the
  characters of a \<^verbatim>\<open>str\<close>, and the MIME message builder (subject, sender, recipient,
  body).
\<close>

record library =
  bytes_decode_utf8 :: "string \<Rightarrow> exn + string"
  str_encode_utf8 :: "string \<Rightarrow> exn + string"
  json_loads :: "string \<Rightarrow> exn + pyval"
  hmac_sha256_hexdigest :: "string \<Rightarrow> string \<Rightarrow> string"
  str_of_other :: "pyval \<Rightarrow> string"
  str_chars :: "string \<Rightarrow> string list"
  mime_build :: "string \<Rightarrow> string option \<Rightarrow> string \<Rightarrow> string \<Rightarrow> exn option"
  mime_as_string :: "string \<Rightarrow> string option \<Rightarrow> string \<Rightarrow> string \<Rightarrow> exn + string"

subsection \<open>Operations on values\<close>

text \<open>\<^verbatim>\<open>d.get(k, default)\<close>: only a dict has the method.\<close>

definition py_get :: "pyval \<Rightarrow> string \<Rightarrow> pyval \<Rightarrow> exn + pyval" where
  "py_get d k dflt =
     (case d of
        PyDict kvs \<Rightarrow> Inr (case map_of kvs k of Some v \<Rightarrow> v | None \<Rightarrow> dflt)
      | _ \<Rightarrow> Inl AttributeError)"

text \<open>\<^verbatim>\<open>d[k]\<close> with a string key.\<close>

definition py_getitem :: "pyval \<Rightarrow> string \<Rightarrow> exn + pyval" where
  "py_getitem d k =
     (case d of
        PyDict kvs \<Rightarrow> (case map_of kvs k of Some v \<Rightarrow> Inr v | None \<Rightarrow> Inl KeyError)
      | _ \<Rightarrow> Inl TypeError)"

text \<open>Truth value of an object, as \<^verbatim>\<open>if x:\<close> takes it.\<close>

fun py_truthy :: "pyval \<Rightarrow> bool" where
  "py_truthy PyNone = False"
| "py_truthy (PyBool b) = b"
| "py_truthy (PyInt i) = (i \<noteq> 0)"
| "py_truthy (PyFloat w) = (w \<noteq> 0 \<and> w \<noteq> 0x8000000000000000)"
| "py_truthy (PyStr s) = (s \<noteq> [])"
| "py_truthy (PyList xs) = (xs \<noteq> [])"
| "py_truthy (PyDict kvs) = (kvs \<noteq> [])"

text \<open>Truth value of an optional string (\<^verbatim>\<open>None\<close> or a \<^verbatim>\<open>str\<close>).\<close>

fun str_truthy :: "string option \<Rightarrow> bool" where
  "str_truthy None = False"
| "str_truthy (Some s) = (s \<noteq> [])"

text \<open>Decimal digits of an integer, as \<^verbatim>\<open>str(n)\<close> gives them.\<close>

definition digit_char :: "nat \<Rightarrow> char" where
  "digit_char d = ''0123456789'' ! d"

fun str_nat :: "nat \<Rightarrow> string" where
  "str_nat n = (if n < 10 then [digit_char n] else str_nat (n div 10) @ [digit_char (n mod 10)])"

declare str_nat.simps [simp del]

definition str_int :: "int \<Rightarrow> string" where
  "str_int i = (if i < 0 then CHR ''-'' # str_nat (nat (- i)) else str_nat (nat i))"

text \<open>
  The text a replacement field \<^verbatim>\<open>{x}\<close> of an f-string inserts: \<^verbatim>\<open>format(x, '')\<close>,
  which is \<^verbatim>\<open>str(x)\<close> for every value here.
\<close>

fun py_format :: "library \<Rightarrow> pyval \<Rightarrow> string" where
  "py_format lib (PyStr s) = s"
| "py_format lib PyNone = ''None''"
| "py_format lib (PyBool b) = (if b then ''True'' else ''False'')"
| "py_format lib (PyInt i) = str_int i"
| "py_format lib v = str_of_other lib v"

text \<open>Keys of a dict in insertion order.\<close>

fun dict_keys :: "(string \<times> pyval) list \<Rightarrow> string list" where
  "dict_keys [] = []"
| "dict_keys ((k, v) # kvs) = k # filter (\<lambda>k'. k' \<noteq> k) (dict_keys kvs)"

fun intercalate :: "string \<Rightarrow> string list \<Rightarrow> string" where
  "intercalate sep [] = []"
| "intercalate sep [x] = x"
| "intercalate sep (x # y # ys) = x @ sep @ intercalate sep (y # ys)"

fun the_strs :: "pyval list \<Rightarrow> string list option" where
  "the_strs [] = Some []"
| "the_strs (PyStr s # vs) = map_option ((#) s) (the_strs vs)"
| "the_strs (_ # vs) = None"

text \<open>\<^verbatim>\<open>sep.join(x)\<close>: the argument must be an iterable of strings.\<close>

fun py_join :: "library \<Rightarrow> string \<Rightarrow> pyval \<Rightarrow> exn + string" where
  "py_join lib sep (PyList xs) =
     (case the_strs xs of None \<Rightarrow> Inl TypeError | Some ss \<Rightarrow> Inr (intercalate sep ss))"
| "py_join lib sep (PyStr s) = Inr (intercalate sep (str_chars lib s))"
| "py_join lib sep (PyDict kvs) = Inr (intercalate sep (dict_keys kvs))"
| "py_join lib sep _ = Inl TypeError"

fun is_substring :: "string \<Rightarrow> string \<Rightarrow> bool" where
  "is_substring n [] = (n = [])"
| "is_substring n (c # cs) = (take (length n) (c # cs) = n \<or> is_substring n cs)"

text \<open>\<^verbatim>\<open>k in x\<close> for a string \<^verbatim>\<open>k\<close>.\<close>

fun py_contains :: "pyval \<Rightarrow> string \<Rightarrow> exn + bool" where
  "py_contains (PyDict kvs) k = Inr (k \<in> set (map fst kvs))"
| "py_contains (PyList xs) k = Inr (PyStr k \<in> set xs)"
| "py_contains (PyStr s) k = Inr (is_substring k s)"
| "py_contains _ k = Inl TypeError"

subsection \<open>Clock\<close>

record datetime =
  dt_year :: nat
  dt_month :: nat
  dt_day :: nat
  dt_hour :: nat
  dt_minute :: nat
  dt_second :: nat
  dt_microsecond :: nat

definition zpad :: "nat \<Rightarrow> nat \<Rightarrow> string" where
  "zpad w n = replicate (w - length (str_nat n)) CHR ''0'' @ str_nat n"

text \<open>\<^verbatim>\<open>strftime('%Y-%m-%d %H:%M:%S')\<close>, for a year of four digits.\<close>

definition strftime_ymd_hms :: "datetime \<Rightarrow> string" where
  "strftime_ymd_hms t =
     zpad 4 (dt_year t) @ ''-'' @ zpad 2 (dt_month t) @ ''-'' @ zpad 2 (dt_day t) @ '' '' @
     zpad 2 (dt_hour t) @ '':'' @ zpad 2 (dt_minute t) @ '':'' @ zpad 2 (dt_second t)"

definition isoformat :: "datetime \<Rightarrow> string" where
  "isoformat t =
     zpad 4 (dt_year t) @ ''-'' @ zpad 2 (dt_month t) @ ''-'' @ zpad 2 (dt_day t) @ ''T'' @
     zpad 2 (dt_hour t) @ '':'' @ zpad 2 (dt_minute t) @ '':'' @ zpad 2 (dt_second t) @
     (if dt_microsecond t = 0 then [] else ''.'' @ zpad 6 (dt_microsecond t))"

section \<open>The world outside the process\<close>

text \<open>
  The transport operations of one mail session, and the world a call runs in: the
  successive readings of \<^verbatim>\<open>datetime.utcnow()\<close> during the call, the generative-text
  backend (deployment name and prompt; it raises, or returns the content of the first
  choice, which may be \<^verbatim>\<open>None\<close>), and the mail transport (given the operations so
  far, the last one being the current one, whether it raises).
\<close>

datatype smtp_op =
    Connect string int
  | StartTLS
  | Login "string option" "string option"
  | SendMail "string option" string string
  | Quit

record world =
  utcnow :: "nat \<Rightarrow> datetime"
  chat_completion :: "string \<Rightarrow> string \<Rightarrow> exn + string option"
  smtp_raises :: "smtp_op list \<Rightarrow> exn option"

section \<open>Signature Verifier\<close>

record handler =
  webhook_secret :: "string option"

text \<open>\<^verbatim>\<open>s.split('=', 1)\<close>\<close>

definition split_eq_1 :: "string \<Rightarrow> string list" where
  "split_eq_1 s =
     (if CHR ''='' \<in> set s
      then [takeWhile (\<lambda>c. c \<noteq> CHR ''='') s, tl (dropWhile (\<lambda>c. c \<noteq> CHR ''='') s)]
      else [s])"

definition is_ascii :: "string \<Rightarrow> bool" where
  "is_ascii s = list_all (\<lambda>c. (of_char c :: nat) < 128) s"

text \<open>\<^verbatim>\<open>hmac.compare_digest\<close> on two \<^verbatim>\<open>str\<close>: both must be ASCII.\<close>

definition compare_digest :: "string \<Rightarrow> string \<Rightarrow> exn + bool" where
  "compare_digest a b = (if is_ascii a \<and> is_ascii b then Inr (a = b) else Inl TypeError)"

text \<open>The body of the \<^verbatim>\<open>try\<close> block of \<^verbatim>\<open>verify_signature\<close>.\<close>

definition verify_signature_try :: "library \<Rightarrow> string \<Rightarrow> string \<Rightarrow> string \<Rightarrow> exn + bool" where
  "verify_signature_try lib secret payload_body signature_header =
     (case split_eq_1 signature_header of
        [algorithm, signature] \<Rightarrow>
          if algorithm \<noteq> ''sha256'' then Inr False
          else then_do (str_encode_utf8 lib secret) (\<lambda>key.
               compare_digest signature (hmac_sha256_hexdigest lib key payload_body))
      | _ \<Rightarrow> Inl ValueError)"

definition verify_signature :: "handler \<Rightarrow> library \<Rightarrow> string \<Rightarrow> string option \<Rightarrow> bool" where
  "verify_signature self lib payload_body signature_header =
     (if \<not> str_truthy (webhook_secret self) then True
      else if \<not> str_truthy signature_header then False
      else (case (webhook_secret self, signature_header) of
              (Some secret, Some header) \<Rightarrow>
                (case verify_signature_try lib secret payload_body header of
                   Inl e \<Rightarrow> False
                 | Inr b \<Rightarrow> b)
            | _ \<Rightarrow> False))"

section \<open>Event Extractor\<close>

text \<open>
  The body of the \<^verbatim>\<open>try\<close> block of \<^verbatim>\<open>extract_pr_data\<close>; \<open>now\<close> is the reading of
  the clock that stamps the record.
\<close>

definition extract_pr_data_try :: "datetime \<Rightarrow> pyval \<Rightarrow> exn + pyval option" where
  "extract_pr_data_try now webhook_payload =
     then_do (py_get webhook_payload ''action'' PyNone) (\<lambda>action.
     if action \<notin> set [PyStr ''opened'', PyStr ''reopened''] then Inr None
     else
     then_do (py_get webhook_payload ''pull_request'' (PyDict [])) (\<lambda>pr.
     then_do (py_get webhook_payload ''repository'' (PyDict [])) (\<lambda>repository.
     then_do (py_get pr ''title'' (PyStr ''Untitled PR'')) (\<lambda>title.
     then_do (py_get pr ''number'' PyNone) (\<lambda>number.
     then_do (then_do (py_get pr ''user'' (PyDict []))
                (\<lambda>user. py_get user ''login'' (PyStr ''Unknown''))) (\<lambda>author.
     then_do (py_get pr ''html_url'' (PyStr [])) (\<lambda>url.
     then_do (py_get pr ''body'' (PyStr ''No description provided'')) (\<lambda>description.
     then_do (then_do (py_get pr ''head'' (PyDict []))
                (\<lambda>head. py_get head ''ref'' (PyStr ''unknown-branch''))) (\<lambda>branch_from.
     then_do (then_do (py_get pr ''base'' (PyDict []))
                (\<lambda>base. py_get base ''ref'' (PyStr ''main''))) (\<lambda>branch_to.
     then_do (py_get repository ''name'' (PyStr ''Unknown Repository'')) (\<lambda>repository_name.
     then_do (py_get repository ''html_url'' (PyStr [])) (\<lambda>repository_url.
     then_do (py_get pr ''created_at'' PyNone) (\<lambda>created_at.
     then_do (py_get pr ''updated_at'' PyNone) (\<lambda>updated_at.
     Inr (Some (PyDict
       [(''title'', title),
        (''number'', number),
        (''author'', author),
        (''url'', url),
        (''description'', description),
        (''branch_from'', branch_from),
        (''branch_to'', branch_to),
        (''repository_name'', repository_name),
        (''repository_url'', repository_url),
        (''created_at'', created_at),
        (''updated_at'', updated_at),
        (''action'', action),
        (''files_changed'', PyList []),
        (''webhook_timestamp'', PyStr (isoformat now)),
        (''event_type'', PyStr ''pull_request'')]))))))))))))))))"

text \<open>Any exception is caught and reported as no record.\<close>

definition extract_pr_data :: "datetime \<Rightarrow> pyval \<Rightarrow> pyval option" where
  "extract_pr_data now webhook_payload =
     (case extract_pr_data_try now webhook_payload of
        Inl e \<Rightarrow> None
      | Inr r \<Rightarrow> r)"

section \<open>Content Generator\<close>

record agent =
  project_name :: string
  project_owner :: string
  deployment_name :: string
  smtp_server :: string
  smtp_port :: int
  email_username :: "string option"
  email_password :: "string option"
  from_email :: "string option"
  owner_email :: "string option"

definition nl :: string where
  "nl = [CHR 0x0A]"

definition dq :: string where
  "dq = [CHR 0x22]"

definition sq :: string where
  "sq = [CHR 0x27]"

text \<open>The four pictographs of the templates, U+1F514, U+1F680, U+1F4CB and U+1F440.\<close>

definition bell :: string where
  "bell = [CHR 0xF0, CHR 0x9F, CHR 0x94, CHR 0x94]"

definition rocket :: string where
  "rocket = [CHR 0xF0, CHR 0x9F, CHR 0x9A, CHR 0x80]"

definition clipboard :: string where
  "clipboard = [CHR 0xF0, CHR 0x9F, CHR 0x93, CHR 0x8B]"

definition eyes :: string where
  "eyes = [CHR 0xF0, CHR 0x9F, CHR 0x91, CHR 0x80]"

text \<open>The template of the fallback body; \<open>now\<close> is the reading of the clock.\<close>

definition fallback_body ::
  "agent \<Rightarrow> library \<Rightarrow> pyval \<Rightarrow> pyval \<Rightarrow> pyval \<Rightarrow> pyval \<Rightarrow> pyval \<Rightarrow> pyval \<Rightarrow> pyval \<Rightarrow> datetime \<Rightarrow> string" where
  "fallback_body self lib pr_title pr_number pr_author branch_from branch_to description
     pr_url now = concat
    [nl,
     ''        <html>'', nl,
     ''        <body>'', nl,
     ''            <h2>'', rocket, '' New Pull Request Notification</h2>'', nl,
     ''            '', nl,
     ''            <p>Hello '', project_owner self, '',</p>'', nl,
     ''            '', nl,
     ''            <p>A new pull request has been created for the <strong>'', project_name self, ''</strong> project:</p>'', nl,
     ''            '', nl,
     ''            <div style='', dq, ''background: #f8f9fa; padding: 15px; border-radius: 8px; margin: 15px 0;'', dq, ''>'', nl,
     ''                <h3>'', clipboard, '' PR Details</h3>'', nl,
     ''                <ul>'', nl,
     ''                    <li><strong>Title:</strong> '', py_format lib pr_title, ''</li>'', nl,
     ''                    <li><strong>PR Number:</strong> #'', py_format lib pr_number, ''</li>'', nl,
     ''                    <li><strong>Author:</strong> '', py_format lib pr_author, ''</li>'', nl,
     ''                    <li><strong>From:</strong> '', py_format lib branch_from, ''</li>'', nl,
     ''                    <li><strong>To:</strong> '', py_format lib branch_to, ''</li>'', nl,
     ''                </ul>'', nl,
     ''            </div>'', nl,
     ''            '', nl,
     ''            <p><strong>Description:</strong><br>'', nl,
     ''            '', py_format lib description, ''</p>'', nl,
     ''            '', nl,
     ''            <p style='', dq, ''text-align: center; margin: 20px 0;'', dq, ''>'', nl,
     ''                <a href='', dq, py_format lib pr_url, dq, '' style='', dq, ''background: #1f77b4; color: white; padding: 10px 20px; text-decoration: none; border-radius: 5px;'', dq, ''>'', nl,
     ''                    '', eyes, '' Review Pull Request'', nl,
     ''                </a>'', nl,
     ''            </p>'', nl,
     ''            '', nl,
     ''            <p>Please review this pull request at your earliest convenience.</p>'', nl,
     ''            '', nl,
     ''            <p>Best regards,<br>'', nl,
     ''            AI Agent - '', project_name self, ''</p>'', nl,
     ''            '', nl,
     ''            <hr>'', nl,
     ''            <p style='', dq, ''font-size: 12px; color: #666;'', dq, ''>'', nl,
     ''                This email was automatically generated by the AI Email Agent.'', nl,
     ''                Generated at: '', strftime_ymd_hms now, '' UTC'', nl,
     ''            </p>'', nl,
     ''        </body>'', nl,
     ''        </html>'', nl,
     ''        '']"

text \<open>
  \<^verbatim>\<open>_generate_fallback_email\<close>.  The clock is read once, after the fields of the
  record.
\<close>

definition generate_fallback_email :: "agent \<Rightarrow> library \<Rightarrow> world \<Rightarrow> pyval \<Rightarrow> exn + pyval" where
  "generate_fallback_email self lib w pr_data =
     then_do (py_get pr_data ''title'' (PyStr ''New Pull Request'')) (\<lambda>pr_title.
     then_do (py_get pr_data ''number'' (PyStr ''Unknown'')) (\<lambda>pr_number.
     then_do (py_get pr_data ''author'' (PyStr ''Unknown Author'')) (\<lambda>pr_author.
     then_do (py_get pr_data ''url'' (PyStr ''#'')) (\<lambda>pr_url.
     let subject = bell @ '' New PR #'' @ py_format lib pr_number @ '': '' @ py_format lib pr_title in
     then_do (py_get pr_data ''branch_from'' (PyStr ''feature-branch'')) (\<lambda>branch_from.
     then_do (py_get pr_data ''branch_to'' (PyStr ''main'')) (\<lambda>branch_to.
     then_do (py_get pr_data ''description'' (PyStr ''No description provided'')) (\<lambda>description.
     let body = fallback_body self lib pr_title pr_number pr_author branch_from branch_to
                  description pr_url (utcnow w 0) in
     Inr (PyDict [(''subject'', PyStr subject), (''body'', PyStr body)]))))))))"

text \<open>
  The instruction sent to the backend; \<open>files\<close> is the joined list of changed files.
\<close>

definition prompt_text ::
  "agent \<Rightarrow> library \<Rightarrow> pyval \<Rightarrow> pyval \<Rightarrow> pyval \<Rightarrow> pyval \<Rightarrow> pyval \<Rightarrow> pyval \<Rightarrow> string \<Rightarrow> pyval \<Rightarrow> string" where
  "prompt_text self lib pr_title pr_number pr_author branch_from branch_to pr_description files
     pr_url = concat
    [nl,
     ''            Generate a professional and informative email notification for a new pull request in the '', project_name self, '' project.'', nl,
     ''            '', nl,
     ''            PR Details:'', nl,
     ''            - Title: '', py_format lib pr_title, nl,
     ''            - PR Number: #'', py_format lib pr_number, nl,
     ''            - Author: '', py_format lib pr_author, nl,
     ''            - From Branch: '', py_format lib branch_from, nl,
     ''            - To Branch: '', py_format lib branch_to, nl,
     ''            - Description: '', py_format lib pr_description, nl,
     ''            - Files Changed: '', files, nl,
     ''            - PR URL: '', py_format lib pr_url, nl,
     ''            '', nl,
     ''            Requirements:'', nl,
     ''            1. Create a compelling subject line (max 80 characters)'', nl,
     ''            2. Generate a professional email body that includes:'', nl,
     ''               - Greeting to the project owner'', nl,
     ''               - Summary of the PR'', nl,
     ''               - Key changes or features'', nl,
     ''               - Call to action for review'', nl,
     ''               - Professional closing'', nl,
     ''            3. Use a professional but friendly tone'', nl,
     ''            4. Include relevant technical details'', nl,
     ''            5. Format as HTML for better presentation'', nl,
     ''            '', nl,
     ''            Return the response in JSON format with '', sq, ''subject'', sq, '' and '', sq, ''body'', sq, '' keys.'', nl,
     ''            '']"

text \<open>
  The inner \<^verbatim>\<open>try\<close> block of \<^verbatim>\<open>generate_pr_email_content\<close>: parse the answer and
  look for the two keys.  \<^verbatim>\<open>json.loads(None)\<close> raises \<^verbatim>\<open>TypeError\<close>.
\<close>

definition parse_ai_response :: "library \<Rightarrow> string option \<Rightarrow> exn + pyval" where
  "parse_ai_response lib ai_response =
     then_do (case ai_response of None \<Rightarrow> Inl TypeError | Some text \<Rightarrow> json_loads lib text)
       (\<lambda>email_content.
     then_do (py_contains email_content ''subject'') (\<lambda>has_subject.
     if \<not> has_subject then Inl ValueError
     else then_do (py_contains email_content ''body'') (\<lambda>has_body.
     if \<not> has_body then Inl ValueError
     else Inr email_content)))"

text \<open>
  The outer \<^verbatim>\<open>try\<close> block of \<^verbatim>\<open>generate_pr_email_content\<close>, first part: read
  the fields of the record and build the prompt.
\<close>

definition build_prompt :: "agent \<Rightarrow> library \<Rightarrow> pyval \<Rightarrow> exn + string" where
  "build_prompt self lib pr_data =
     then_do (py_get pr_data ''title'' (PyStr ''New Pull Request'')) (\<lambda>pr_title.
     then_do (py_get pr_data ''number'' (PyStr ''Unknown'')) (\<lambda>pr_number.
     then_do (py_get pr_data ''author'' (PyStr ''Unknown Author'')) (\<lambda>pr_author.
     then_do (py_get pr_data ''url'' (PyStr ''#'')) (\<lambda>pr_url.
     then_do (py_get pr_data ''description'' (PyStr ''No description provided'')) (\<lambda>pr_description.
     then_do (py_get pr_data ''branch_from'' (PyStr ''feature-branch'')) (\<lambda>branch_from.
     then_do (py_get pr_data ''branch_to'' (PyStr ''main'')) (\<lambda>branch_to.
     then_do (py_get pr_data ''files_changed'' (PyList [])) (\<lambda>files_changed.
     then_do (if py_truthy files_changed then py_join lib '', '' files_changed
              else Inr ''Not specified'') (\<lambda>files.
     Inr (prompt_text self lib pr_title pr_number pr_author branch_from branch_to
            pr_description files pr_url))))))))))"

text \<open>
  Second part: call the backend and parse its answer; a \<^verbatim>\<open>JSONDecodeError\<close> or
  \<^verbatim>\<open>ValueError\<close> of the parse is answered with the fallback content.
\<close>

definition generate_pr_email_content_try :: "agent \<Rightarrow> library \<Rightarrow> world \<Rightarrow> pyval \<Rightarrow> exn + pyval" where
  "generate_pr_email_content_try self lib w pr_data =
     then_do (build_prompt self lib pr_data) (\<lambda>prompt.
     then_do (chat_completion w (deployment_name self) prompt) (\<lambda>ai_response.
     case parse_ai_response lib ai_response of
       Inl e \<Rightarrow> if is_ValueError e then generate_fallback_email self lib w pr_data else Inl e
     | Inr email_content \<Rightarrow> Inr email_content))"

text \<open>Any exception of the outer block is answered with the fallback content.\<close>

definition generate_pr_email_content :: "agent \<Rightarrow> library \<Rightarrow> world \<Rightarrow> pyval \<Rightarrow> exn + pyval" where
  "generate_pr_email_content self lib w pr_data =
     (case generate_pr_email_content_try self lib w pr_data of
        Inl e \<Rightarrow> generate_fallback_email self lib w pr_data
      | Inr email_content \<Rightarrow> Inr email_content)"

section \<open>Delivery Agent\<close>

text \<open>One transport operation: it is recorded, and it may raise.\<close>

definition smtp_step ::
  "world \<Rightarrow> smtp_op list \<Rightarrow> smtp_op \<Rightarrow> (smtp_op list \<Rightarrow> smtp_op list \<times> (exn + unit)) \<Rightarrow>
   smtp_op list \<times> (exn + unit)" where
  "smtp_step w ops op k =
     (case smtp_raises w (ops @ [op]) of
        Some e \<Rightarrow> (ops @ [op], Inl e)
      | None \<Rightarrow> k (ops @ [op]))"

text \<open>
  The \<^verbatim>\<open>try\<close> block of \<^verbatim>\<open>send_email\<close> after the recipient is known: the transport
  operations attempted, and whether an exception ended them.
\<close>

definition send_email_try ::
  "agent \<Rightarrow> library \<Rightarrow> world \<Rightarrow> string \<Rightarrow> string \<Rightarrow> string \<Rightarrow> smtp_op list \<times> (exn + unit)" where
  "send_email_try self lib w subject body recipient =
     (case mime_build lib subject (from_email self) recipient body of
        Some e \<Rightarrow> ([], Inl e)
      | None \<Rightarrow>
          smtp_step w [] (Connect (smtp_server self) (smtp_port self)) (\<lambda>ops.
          smtp_step w ops StartTLS (\<lambda>ops.
          smtp_step w ops (Login (email_username self) (email_password self)) (\<lambda>ops.
          case mime_as_string lib subject (from_email self) recipient body of
            Inl e \<Rightarrow> (ops, Inl e)
          | Inr text \<Rightarrow>
              smtp_step w ops (SendMail (from_email self) recipient text) (\<lambda>ops.
              smtp_step w ops Quit (\<lambda>ops. (ops, Inr ())))))))"

definition send_email ::
  "agent \<Rightarrow> library \<Rightarrow> world \<Rightarrow> string \<Rightarrow> string \<Rightarrow> string option \<Rightarrow> smtp_op list \<times> bool" where
  "send_email self lib w subject body to_email =
     (let recipient = (if str_truthy to_email then to_email else owner_email self) in
      if \<not> str_truthy recipient then ([], False)
      else (case recipient of
              Some r \<Rightarrow>
                (case send_email_try self lib w subject body r of
                   (ops, Inl e) \<Rightarrow> (ops, False)
                 | (ops, Inr u) \<Rightarrow> (ops, True))
            | None \<Rightarrow> ([], False)))"

section \<open>Webhook handler\<close>

record request =
  request_body :: string
  x_hub_signature_256 :: "string option"
  x_github_event :: "string option"

text \<open>\<^verbatim>\<open>request.headers.get(name, '')\<close>\<close>

definition header_get :: "string option \<Rightarrow> string" where
  "header_get h = (case h of None \<Rightarrow> [] | Some v \<Rightarrow> v)"

text \<open>
  What a call of the handler does besides answering: it hands a payload to the Event
  Extractor, and it queues a record for the background notification (Content Generator,
  then Delivery Agent).
\<close>

datatype effect = Extract pyval | AddTask pyval

text \<open>
  The inner \<^verbatim>\<open>try\<close> block: decode and parse the body; only \<^verbatim>\<open>JSONDecodeError\<close> is
  turned into status 400.
\<close>

definition parse_payload :: "library \<Rightarrow> string \<Rightarrow> exn + pyval" where
  "parse_payload lib payload_body =
     (case then_do (bytes_decode_utf8 lib payload_body) (json_loads lib) of
        Inl e \<Rightarrow> if e = JSONDecodeError then Inl (HTTPException 400 ''Invalid JSON payload'')
                 else Inl e
      | Inr webhook_payload \<Rightarrow> Inr webhook_payload)"

text \<open>The outer \<^verbatim>\<open>try\<close> block of \<^verbatim>\<open>handle_webhook\<close>.\<close>

definition handle_webhook_try ::
  "handler \<Rightarrow> library \<Rightarrow> world \<Rightarrow> request \<Rightarrow> effect list \<times> (exn + pyval)" where
  "handle_webhook_try self lib w request =
     (let payload_body = request_body request;
          signature_header = header_get (x_hub_signature_256 request);
          event_type = header_get (x_github_event request) in
      if \<not> verify_signature self lib payload_body (Some signature_header)
      then ([], Inl (HTTPException 403 ''Invalid signature''))
      else
        (case parse_payload lib payload_body of
           Inl e \<Rightarrow> ([], Inl e)
         | Inr webhook_payload \<Rightarrow>
             if event_type = ''pull_request'' then
               (case extract_pr_data (utcnow w 0) webhook_payload of
                  Some pr_data \<Rightarrow>
                    if py_truthy pr_data then
                      ([Extract webhook_payload, AddTask pr_data],
                       then_do (py_getitem pr_data ''number'') (\<lambda>pr_number.
                       then_do (py_getitem pr_data ''title'') (\<lambda>pr_title.
                       Inr (PyDict
                         [(''status'', PyStr ''success''),
                          (''message'', PyStr ''PR notification queued for processing''),
                          (''pr_number'', pr_number),
                          (''pr_title'', pr_title),
                          (''timestamp'', PyStr (isoformat (utcnow w 1)))]))))
                    else
                      ([Extract webhook_payload],
                       Inr (PyDict
                         [(''status'', PyStr ''ignored''),
                          (''message'', PyStr ''PR event not relevant for notification''),
                          (''timestamp'', PyStr (isoformat (utcnow w 1)))]))
                | None \<Rightarrow>
                    ([Extract webhook_payload],
                     Inr (PyDict
                       [(''status'', PyStr ''ignored''),
                        (''message'', PyStr ''PR event not relevant for notification''),
                        (''timestamp'', PyStr (isoformat (utcnow w 0)))])))
             else if event_type = ''ping'' then
               ([],
                Inr (PyDict
                  [(''status'', PyStr ''success''),
                   (''message'', PyStr ''Webhook endpoint is working''),
                   (''timestamp'', PyStr (isoformat (utcnow w 0)))]))
             else
               ([],
                Inr (PyDict
                  [(''status'', PyStr ''ignored''),
                   (''message'', PyStr (''Event type '' @ event_type @ '' not handled'')),
                   (''timestamp'', PyStr (isoformat (utcnow w 0)))]))))"

text \<open>
  \<^verbatim>\<open>handle_webhook\<close>: an \<^verbatim>\<open>HTTPException\<close> passes, any other exception becomes
  status 500.
\<close>

definition handle_webhook ::
  "handler \<Rightarrow> library \<Rightarrow> world \<Rightarrow> request \<Rightarrow> effect list \<times> (exn + pyval)" where
  "handle_webhook self lib w request =
     (case handle_webhook_try self lib w request of
        (effects, Inl (HTTPException status_code detail)) \<Rightarrow>
          (effects, Inl (HTTPException status_code detail))
      | (effects, Inl e) \<Rightarrow> (effects, Inl (HTTPException 500 ''Internal server error''))
      | (effects, Inr response) \<Rightarrow> (effects, Inr response))"

section \<open>Notions of the specification\<close>

text \<open>The value found by following keys through nested dicts, if every key is there.\<close>

fun lookup_path :: "pyval \<Rightarrow> string list \<Rightarrow> pyval option" where
  "lookup_path v [] = Some v"
| "lookup_path (PyDict kvs) (k # ks) =
     (case map_of kvs k of None \<Rightarrow> None | Some v \<Rightarrow> lookup_path v ks)"
| "lookup_path _ (k # ks) = None"

fun is_dict :: "pyval \<Rightarrow> bool" where
  "is_dict (PyDict kvs) = True"
| "is_dict _ = False"

definition dict_or_absent :: "pyval \<Rightarrow> string list \<Rightarrow> bool" where
  "dict_or_absent v path = (case lookup_path v path of None \<Rightarrow> True | Some x \<Rightarrow> is_dict x)"

text \<open>
  A well-formed pull-request payload: an object in which each of the nested objects
  the extractor reads is an object where it is present.  Any key may be absent.
\<close>

definition well_formed_payload :: "pyval \<Rightarrow> bool" where
  "well_formed_payload payload \<longleftrightarrow>
     is_dict payload \<and>
     dict_or_absent payload [''pull_request''] \<and>
     dict_or_absent payload [''repository''] \<and>
     dict_or_absent payload [''pull_request'', ''user''] \<and>
     dict_or_absent payload [''pull_request'', ''head''] \<and>
     dict_or_absent payload [''pull_request'', ''base'']"

text \<open>The field at a path, or the default when it is absent.\<close>

definition field_or :: "pyval \<Rightarrow> string list \<Rightarrow> pyval \<Rightarrow> pyval" where
  "field_or payload path dflt = (case lookup_path payload path of None \<Rightarrow> dflt | Some v \<Rightarrow> v)"

section \<open>Example inputs\<close>

text \<open>
  A simulated library, backend and mail transport for the examples.  The parser knows
  the texts used below and takes any other text as malformed; the digests are those of
  HMAC-SHA256 under the key \<^verbatim>\<open>s3cret\<close>.
\<close>

definition example_json_empty_content :: string where
  "example_json_empty_content =
     ''{'' @ dq @ ''subject'' @ dq @ '': '' @ dq @ dq @ '', '' @ dq @ ''body'' @ dq @ '': '' @ dq @ dq @ ''}''"

definition example_json_subject_only :: string where
  "example_json_subject_only = ''{'' @ dq @ ''subject'' @ dq @ '': '' @ dq @ ''PR 42'' @ dq @ ''}''"

definition example_json_content :: string where
  "example_json_content =
     ''{'' @ dq @ ''subject'' @ dq @ '': '' @ dq @ ''PR 42'' @ dq @ '', '' @
     dq @ ''body'' @ dq @ '': '' @ dq @ ''<p>Please review.</p>'' @ dq @ ''}''"

definition example_json_loads :: "string \<Rightarrow> exn + pyval" where
  "example_json_loads text =
     (if text = ''{}'' then Inr (PyDict [])
      else if text = example_json_empty_content
        then Inr (PyDict [(''subject'', PyStr []), (''body'', PyStr [])])
      else if text = example_json_subject_only
        then Inr (PyDict [(''subject'', PyStr ''PR 42'')])
      else if text = example_json_content
        then Inr (PyDict [(''subject'', PyStr ''PR 42''), (''body'', PyStr ''<p>Please review.</p>'')])
      else Inl JSONDecodeError)"

definition example_hmac :: "string \<Rightarrow> string \<Rightarrow> string" where
  "example_hmac key msg =
     (if key = ''s3cret'' \<and> msg = ''{}''
        then ''adbde1ce40c89c14215687d5d762a47df6dfaefcfad61e2e86718ffc8498571b''
      else if key = ''s3cret'' \<and> msg = ''not json''
        then ''4b182846723bcbd5b91346e9611da460827b94fdc3a46048f4fcc992ac54f99f''
      else replicate 64 CHR ''0'')"

definition example_library :: library where
  "example_library =
     \<lparr>bytes_decode_utf8 = Inr,
      str_encode_utf8 = Inr,
      json_loads = example_json_loads,
      hmac_sha256_hexdigest = example_hmac,
      str_of_other = (\<lambda>v. ''?''),
      str_chars = map (\<lambda>c. [c]),
      mime_build = (\<lambda>subject sender recipient body. None),
      mime_as_string = (\<lambda>subject sender recipient body. Inr body)\<rparr>"

definition example_time :: datetime where
  "example_time =
     \<lparr>dt_year = 2024, dt_month = 1, dt_day = 2, dt_hour = 3, dt_minute = 4, dt_second = 5,
      dt_microsecond = 0\<rparr>"

text \<open>A world whose backend raises, and worlds whose backend answers with a given text.\<close>

definition example_world :: world where
  "example_world =
     \<lparr>utcnow = (\<lambda>n. example_time),
      chat_completion = (\<lambda>deployment prompt. Inl (OtherException ''timeout'')),
      smtp_raises = (\<lambda>ops. None)\<rparr>"

definition example_world_answering :: "string \<Rightarrow> world" where
  "example_world_answering text =
     \<lparr>utcnow = (\<lambda>n. example_time),
      chat_completion = (\<lambda>deployment prompt. Inr (Some text)),
      smtp_raises = (\<lambda>ops. Some (OtherException ''connection refused''))\<rparr>"

definition example_agent :: agent where
  "example_agent =
     \<lparr>project_name = ''Agentic CI/CD Task Manager'',
      project_owner = ''Project Owner'',
      deployment_name = ''gpt-4o'',
      smtp_server = ''smtp.gmail.com'',
      smtp_port = 587,
      email_username = Some ''bot@example.com'',
      email_password = Some ''pw'',
      from_email = Some ''bot@example.com'',
      owner_email = Some ''owner@example.com''\<rparr>"

text \<open>PR #42 "Add logging", opened from \<^verbatim>\<open>feature/log\<close> into \<^verbatim>\<open>main\<close> by \<^verbatim>\<open>alice\<close>.\<close>

definition example_pr :: pyval where
  "example_pr = PyDict
     [(''title'', PyStr ''Add logging''),
      (''number'', PyInt 42),
      (''author'', PyStr ''alice''),
      (''url'', PyStr ''https://github.com/example/repo/pull/42''),
      (''description'', PyStr ''Log every request.''),
      (''branch_from'', PyStr ''feature/log''),
      (''branch_to'', PyStr ''main''),
      (''files_changed'', PyList [])]"

definition example_payload :: pyval where
  "example_payload = PyDict
     [(''action'', PyStr ''opened''),
      (''pull_request'', PyDict
         [(''title'', PyStr ''Add logging''),
          (''number'', PyInt 42),
          (''user'', PyDict [(''login'', PyStr ''alice'')]),
          (''head'', PyDict [(''ref'', PyStr ''feature/log'')])])]"

section \<open>Evaluation of the examples\<close>

lemma str_nat_42: "str_nat 42 = ''42''"
  by (simp add: str_nat.simps digit_char_def)

lemma isoformat_example_time: "isoformat example_time = ''2024-01-02T03:04:05''"
  by (simp add: isoformat_def zpad_def str_nat.simps digit_char_def example_time_def)

lemma verify_signature_example_valid:
  "verify_signature \<lparr>webhook_secret = Some ''s3cret''\<rparr> example_library ''{}''
     (Some ''sha256=adbde1ce40c89c14215687d5d762a47df6dfaefcfad61e2e86718ffc8498571b'')"
  by (simp add: verify_signature_def verify_signature_try_def split_eq_1_def example_library_def
        example_hmac_def then_do_def compare_digest_def is_ascii_def)

lemma verify_signature_example_valid_not_json:
  "verify_signature \<lparr>webhook_secret = Some ''s3cret''\<rparr> example_library ''not json''
     (Some ''sha256=4b182846723bcbd5b91346e9611da460827b94fdc3a46048f4fcc992ac54f99f'')"
  by (simp add: verify_signature_def verify_signature_try_def split_eq_1_def example_library_def
        example_hmac_def then_do_def compare_digest_def is_ascii_def)

lemma verify_signature_example_invalid:
  "\<not> verify_signature \<lparr>webhook_secret = Some ''s3cret''\<rparr> example_library ''not json''
       (Some ''sha256=adbde1ce40c89c14215687d5d762a47df6dfaefcfad61e2e86718ffc8498571b'')"
  by (simp add: verify_signature_def verify_signature_try_def split_eq_1_def example_library_def
        example_hmac_def then_do_def compare_digest_def is_ascii_def)

lemma example_json_loads_not_json: "example_json_loads ''not json'' = Inl JSONDecodeError"
  by (simp add: example_json_loads_def example_json_empty_content_def
        example_json_subject_only_def example_json_content_def dq_def)

lemma example_json_loads_empty_object: "example_json_loads ''{}'' = Inr (PyDict [])"
  by (simp add: example_json_loads_def)

section \<open>Signature Verifier: properties\<close>

text \<open>
  Claim C5.  Whatever the body and the signature header, \<open>verify_signature\<close> returns
  true when no shared secret is configured (the secret is \<^verbatim>\<open>None\<close> or the empty
  string); and when a non-empty secret is configured, it returns false for every body
  whenever the signature header is absent (\<^verbatim>\<open>None\<close>) or empty.
\<close>

theorem verify_signature_secret_and_header:
  "(webhook_secret self = None \<or> webhook_secret self = Some [] \<longrightarrow>
      verify_signature self lib payload_body signature_header) \<and>
   (webhook_secret self = Some secret \<and> secret \<noteq> [] \<and>
      (signature_header = None \<or> signature_header = Some []) \<longrightarrow>
      \<not> verify_signature self lib payload_body signature_header)"
  by (auto simp: verify_signature_def)

theorem verify_signature_secret_and_header_witness:
  "verify_signature \<lparr>webhook_secret = None\<rparr> example_library ''{}'' (Some ''sha256=00'') \<and>
   verify_signature \<lparr>webhook_secret = Some []\<rparr> example_library ''{}'' None \<and>
   \<not> verify_signature \<lparr>webhook_secret = Some ''s3cret''\<rparr> example_library ''{}'' None \<and>
   \<not> verify_signature \<lparr>webhook_secret = Some ''s3cret''\<rparr> example_library ''{}'' (Some [])"
  using verify_signature_secret_and_header
          [of "\<lparr>webhook_secret = None\<rparr>" example_library "''{}''" "Some ''sha256=00''" "''s3cret''"]
        verify_signature_secret_and_header
          [of "\<lparr>webhook_secret = Some []\<rparr>" example_library "''{}''" None "''s3cret''"]
        verify_signature_secret_and_header
          [of "\<lparr>webhook_secret = Some ''s3cret''\<rparr>" example_library "''{}''" None "''s3cret''"]
        verify_signature_secret_and_header
          [of "\<lparr>webhook_secret = Some ''s3cret''\<rparr>" example_library "''{}''" "Some []" "''s3cret''"]
  by simp

lemma split_eq_1_algorithm:
  "split_eq_1 h = [a, s] \<Longrightarrow> a = takeWhile (\<lambda>c. c \<noteq> CHR ''='') h"
  by (auto simp: split_eq_1_def split: if_splits)

text \<open>
  Claim C6.  When a non-empty secret is configured, \<open>verify_signature\<close> returns false
  for every body and every signature header whose part before the first \<^verbatim>\<open>=\<close> is not
  exactly \<^verbatim>\<open>sha256\<close>, whatever the digest after it.
\<close>

theorem verify_signature_algorithm:
  "webhook_secret self = Some secret \<Longrightarrow> secret \<noteq> [] \<Longrightarrow>
   takeWhile (\<lambda>c. c \<noteq> CHR ''='') header \<noteq> ''sha256'' \<Longrightarrow>
   \<not> verify_signature self lib payload_body (Some header)"
  by (auto simp: verify_signature_def verify_signature_try_def
           split: list.splits sum.splits dest: split_eq_1_algorithm)

theorem verify_signature_algorithm_witness:
  "\<not> verify_signature \<lparr>webhook_secret = Some ''s3cret''\<rparr> example_library ''{}''
       (Some ''sha1=adbde1ce40c89c14215687d5d762a47df6dfaefcfad61e2e86718ffc8498571b'')"
proof -
  have secret: "webhook_secret \<lparr>webhook_secret = Some ''s3cret''\<rparr> = Some ''s3cret''"
    by simp
  have nonempty: "''s3cret'' \<noteq> []"
    by simp
  have algorithm:
    "takeWhile (\<lambda>c. c \<noteq> CHR ''='')
       ''sha1=adbde1ce40c89c14215687d5d762a47df6dfaefcfad61e2e86718ffc8498571b'' \<noteq> ''sha256''"
    by simp
  show ?thesis
    by (rule verify_signature_algorithm [OF secret nonempty algorithm])
qed

section \<open>Event Extractor: properties\<close>

text \<open>
  Claim C7.  For every payload object whose \<^verbatim>\<open>action\<close> field is neither
  \<^verbatim>\<open>"opened"\<close> nor \<^verbatim>\<open>"reopened"\<close> (an absent field included), \<open>extract_pr_data\<close>
  returns no record, and it does so by its normal return: no exception is raised and
  caught on the way.
\<close>

theorem extract_pr_data_other_action:
  "map_of kvs ''action'' \<noteq> Some (PyStr ''opened'') \<Longrightarrow>
   map_of kvs ''action'' \<noteq> Some (PyStr ''reopened'') \<Longrightarrow>
   extract_pr_data_try now (PyDict kvs) = Inr None \<and> extract_pr_data now (PyDict kvs) = None"
  by (auto simp: extract_pr_data_def extract_pr_data_try_def py_get_def then_do_def
           split: option.splits)

theorem extract_pr_data_other_action_witness:
  "extract_pr_data_try example_time (PyDict [(''action'', PyStr ''closed'')]) = Inr None \<and>
   extract_pr_data example_time (PyDict [(''action'', PyStr ''closed'')]) = None \<and>
   extract_pr_data example_time (PyDict []) = None"
proof -
  have closed1: "map_of [(''action'', PyStr ''closed'')] ''action'' \<noteq> Some (PyStr ''opened'')"
    by simp
  have closed2: "map_of [(''action'', PyStr ''closed'')] ''action'' \<noteq> Some (PyStr ''reopened'')"
    by simp
  have absent1: "map_of ([] :: (string \<times> pyval) list) ''action'' \<noteq> Some (PyStr ''opened'')"
    by simp
  have absent2: "map_of ([] :: (string \<times> pyval) list) ''action'' \<noteq> Some (PyStr ''reopened'')"
    by simp
  show ?thesis
    using extract_pr_data_other_action [OF closed1 closed2, of example_time]
          extract_pr_data_other_action [OF absent1 absent2, of example_time]
    by simp
qed

section \<open>Delivery Agent: properties\<close>

text \<open>
  Claim C9.  For every subject and body, when the recipient argument is absent or
  empty and the configured owner address is absent or empty, \<open>send_email\<close> returns
  false and no operation of the mail transport is attempted: no connection is opened.
\<close>

theorem send_email_no_recipient:
  "to_email = None \<or> to_email = Some [] \<Longrightarrow>
   owner_email self = None \<or> owner_email self = Some [] \<Longrightarrow>
   send_email self lib w subject body to_email = ([], False)"
  by (auto simp: send_email_def Let_def)

theorem send_email_no_recipient_witness:
  "send_email (example_agent\<lparr>owner_email := None\<rparr>) example_library example_world
     ''New PR'' ''<p>Please review.</p>'' None = ([], False) \<and>
   send_email (example_agent\<lparr>owner_email := Some []\<rparr>) example_library example_world
     ''New PR'' ''<p>Please review.</p>'' (Some []) = ([], False)"
proof -
  have absent: "(None :: string option) = None \<or> (None :: string option) = Some []"
    by simp
  have empty: "Some [] = (None :: string option) \<or> Some [] = (Some [] :: string option)"
    by simp
  have owner_absent:
    "owner_email (example_agent\<lparr>owner_email := None\<rparr>) = None \<or>
     owner_email (example_agent\<lparr>owner_email := None\<rparr>) = Some []"
    by simp
  have owner_empty:
    "owner_email (example_agent\<lparr>owner_email := Some []\<rparr>) = None \<or>
     owner_email (example_agent\<lparr>owner_email := Some []\<rparr>) = Some []"
    by simp
  show ?thesis
    using send_email_no_recipient [OF absent owner_absent]
          send_email_no_recipient [OF empty owner_empty]
    by simp
qed

section \<open>Webhook handler: properties\<close>

lemma parse_payload_example_not_json:
  "parse_payload example_library ''not json'' = Inl (HTTPException 400 ''Invalid JSON payload'')"
  by (simp add: parse_payload_def then_do_def example_library_def example_json_loads_not_json)

lemma handle_webhook_example_not_json:
  "handle_webhook \<lparr>webhook_secret = Some ''s3cret''\<rparr> example_library example_world
     \<lparr>request_body = ''not json'',
      x_hub_signature_256 =
        Some ''sha256=4b182846723bcbd5b91346e9611da460827b94fdc3a46048f4fcc992ac54f99f'',
      x_github_event = event\<rparr> =
     ([], Inl (HTTPException 400 ''Invalid JSON payload''))"
  by (simp add: verify_signature_example_valid_not_json handle_webhook_def
        handle_webhook_try_def Let_def header_get_def parse_payload_example_not_json)

text \<open>
  A ping whose signature is valid and whose body is not JSON is answered with status
  400, not with the success acknowledgment.
\<close>

theorem handle_webhook_ping_counterexample:
  "verify_signature \<lparr>webhook_secret = Some ''s3cret''\<rparr> example_library ''not json''
     (Some ''sha256=4b182846723bcbd5b91346e9611da460827b94fdc3a46048f4fcc992ac54f99f'') \<and>
   handle_webhook \<lparr>webhook_secret = Some ''s3cret''\<rparr> example_library example_world
     \<lparr>request_body = ''not json'',
      x_hub_signature_256 =
        Some ''sha256=4b182846723bcbd5b91346e9611da460827b94fdc3a46048f4fcc992ac54f99f'',
      x_github_event = Some ''ping''\<rparr> =
     ([], Inl (HTTPException 400 ''Invalid JSON payload''))"
  by (simp add: verify_signature_example_valid_not_json handle_webhook_example_not_json)

text \<open>
  Claim C2, amended.  For every request with event type \<^verbatim>\<open>ping\<close>, whatever its body
  and its signature, the handler hands nothing to the Event Extractor and queues no
  notification (so the Content Generator is not invoked).  When signature verification
  passes, the answer depends on the body: if it decodes as UTF-8 and parses as JSON,
  the handler returns the success acknowledgment; if it decodes and the parser raises
  \<^verbatim>\<open>JSONDecodeError\<close>, the answer is status 400; if decoding raises
  \<^verbatim>\<open>UnicodeDecodeError\<close>, the answer is status 500.
\<close>

theorem handle_webhook_ping:
  "(x_github_event request = Some ''ping'' \<longrightarrow>
      fst (handle_webhook self lib w request) = []) \<and>
   (x_github_event request = Some ''ping'' \<and>
    verify_signature self lib (request_body request)
      (Some (header_get (x_hub_signature_256 request))) \<and>
    bytes_decode_utf8 lib (request_body request) = Inr text \<and>
    json_loads lib text = Inr webhook_payload \<longrightarrow>
      handle_webhook self lib w request =
        ([], Inr (PyDict
           [(''status'', PyStr ''success''),
            (''message'', PyStr ''Webhook endpoint is working''),
            (''timestamp'', PyStr (isoformat (utcnow w 0)))]))) \<and>
   (x_github_event request = Some ''ping'' \<and>
    verify_signature self lib (request_body request)
      (Some (header_get (x_hub_signature_256 request))) \<and>
    bytes_decode_utf8 lib (request_body request) = Inr text \<and>
    json_loads lib text = Inl JSONDecodeError \<longrightarrow>
      handle_webhook self lib w request =
        ([], Inl (HTTPException 400 ''Invalid JSON payload''))) \<and>
   (x_github_event request = Some ''ping'' \<and>
    verify_signature self lib (request_body request)
      (Some (header_get (x_hub_signature_256 request))) \<and>
    bytes_decode_utf8 lib (request_body request) = Inl UnicodeError \<longrightarrow>
      handle_webhook self lib w request =
        ([], Inl (HTTPException 500 ''Internal server error'')))"
proof -
  have no_effect: "x_github_event request = Some ''ping'' \<longrightarrow>
      fst (handle_webhook self lib w request) = []"
    by (simp add: handle_webhook_def handle_webhook_try_def Let_def header_get_def
          split: sum.splits exn.splits)
  have acknowledged: "x_github_event request = Some ''ping'' \<and>
    verify_signature self lib (request_body request)
      (Some (header_get (x_hub_signature_256 request))) \<and>
    bytes_decode_utf8 lib (request_body request) = Inr text \<and>
    json_loads lib text = Inr webhook_payload \<longrightarrow>
      handle_webhook self lib w request =
        ([], Inr (PyDict
           [(''status'', PyStr ''success''),
            (''message'', PyStr ''Webhook endpoint is working''),
            (''timestamp'', PyStr (isoformat (utcnow w 0)))]))"
    by (simp add: handle_webhook_def handle_webhook_try_def Let_def parse_payload_def
          then_do_def header_get_def)
  have malformed: "x_github_event request = Some ''ping'' \<and>
    verify_signature self lib (request_body request)
      (Some (header_get (x_hub_signature_256 request))) \<and>
    bytes_decode_utf8 lib (request_body request) = Inr text \<and>
    json_loads lib text = Inl JSONDecodeError \<longrightarrow>
      handle_webhook self lib w request =
        ([], Inl (HTTPException 400 ''Invalid JSON payload''))"
    by (simp add: handle_webhook_def handle_webhook_try_def Let_def parse_payload_def
          then_do_def header_get_def)
  have undecodable: "x_github_event request = Some ''ping'' \<and>
    verify_signature self lib (request_body request)
      (Some (header_get (x_hub_signature_256 request))) \<and>
    bytes_decode_utf8 lib (request_body request) = Inl UnicodeError \<longrightarrow>
      handle_webhook self lib w request =
        ([], Inl (HTTPException 500 ''Internal server error''))"
    by (simp add: handle_webhook_def handle_webhook_try_def Let_def parse_payload_def
          then_do_def header_get_def)
  from no_effect acknowledged malformed undecodable show ?thesis
    by (intro conjI)
qed

theorem handle_webhook_ping_witness:
  "fst (handle_webhook \<lparr>webhook_secret = Some ''s3cret''\<rparr> example_library example_world
          \<lparr>request_body = ''not json'', x_hub_signature_256 = None,
           x_github_event = Some ''ping''\<rparr>) = [] \<and>
   handle_webhook \<lparr>webhook_secret = Some ''s3cret''\<rparr> example_library example_world
     \<lparr>request_body = ''{}'',
      x_hub_signature_256 =
        Some ''sha256=adbde1ce40c89c14215687d5d762a47df6dfaefcfad61e2e86718ffc8498571b'',
      x_github_event = Some ''ping''\<rparr> =
     ([], Inr (PyDict
        [(''status'', PyStr ''success''),
         (''message'', PyStr ''Webhook endpoint is working''),
         (''timestamp'', PyStr ''2024-01-02T03:04:05'')])) \<and>
   handle_webhook \<lparr>webhook_secret = Some ''s3cret''\<rparr> example_library example_world
     \<lparr>request_body = ''not json'',
      x_hub_signature_256 =
        Some ''sha256=4b182846723bcbd5b91346e9611da460827b94fdc3a46048f4fcc992ac54f99f'',
      x_github_event = Some ''ping''\<rparr> =
     ([], Inl (HTTPException 400 ''Invalid JSON payload'')) \<and>
   handle_webhook \<lparr>webhook_secret = None\<rparr>
     (example_library\<lparr>bytes_decode_utf8 := \<lambda>payload_body. Inl UnicodeError\<rparr>) example_world
     \<lparr>request_body = [CHR 0xFF], x_hub_signature_256 = None,
      x_github_event = Some ''ping''\<rparr> =
     ([], Inl (HTTPException 500 ''Internal server error''))"
proof -
  let ?self = "\<lparr>webhook_secret = Some ''s3cret''\<rparr>"
  let ?unsigned =
    "\<lparr>request_body = ''not json'', x_hub_signature_256 = None,
      x_github_event = Some ''ping''\<rparr>"
  let ?valid =
    "\<lparr>request_body = ''{}'',
      x_hub_signature_256 =
        Some ''sha256=adbde1ce40c89c14215687d5d762a47df6dfaefcfad61e2e86718ffc8498571b'',
      x_github_event = Some ''ping''\<rparr>"
  let ?signed =
    "\<lparr>request_body = ''not json'',
      x_hub_signature_256 =
        Some ''sha256=4b182846723bcbd5b91346e9611da460827b94fdc3a46048f4fcc992ac54f99f'',
      x_github_event = Some ''ping''\<rparr>"
  let ?bytes =
    "\<lparr>request_body = [CHR 0xFF], x_hub_signature_256 = None,
      x_github_event = Some ''ping''\<rparr>"
  let ?strict = "example_library\<lparr>bytes_decode_utf8 := \<lambda>payload_body. Inl UnicodeError\<rparr>"
  have verified_valid:
    "verify_signature ?self example_library (request_body ?valid)
       (Some (header_get (x_hub_signature_256 ?valid)))"
    using verify_signature_example_valid by (simp add: header_get_def)
  have verified_signed:
    "verify_signature ?self example_library (request_body ?signed)
       (Some (header_get (x_hub_signature_256 ?signed)))"
    using verify_signature_example_valid_not_json by (simp add: header_get_def)
  have verified_bytes:
    "verify_signature \<lparr>webhook_secret = None\<rparr> ?strict (request_body ?bytes)
       (Some (header_get (x_hub_signature_256 ?bytes)))"
    by (simp add: verify_signature_def)
  have decoded: "bytes_decode_utf8 example_library body = Inr body" for body
    by (simp add: example_library_def)
  have undecodable: "bytes_decode_utf8 ?strict (request_body ?bytes) = Inl UnicodeError"
    by simp
  have parsed: "json_loads example_library ''{}'' = Inr (PyDict [])"
    by (simp add: example_library_def example_json_loads_empty_object)
  have malformed: "json_loads example_library ''not json'' = Inl JSONDecodeError"
    by (simp add: example_library_def example_json_loads_not_json)
  show ?thesis
    using handle_webhook_ping
            [of ?unsigned ?self example_library example_world "''not json''" PyNone]
          handle_webhook_ping
            [of ?valid ?self example_library example_world "''{}''" "PyDict []"]
          handle_webhook_ping
            [of ?signed ?self example_library example_world "''not json''" PyNone]
          handle_webhook_ping
            [of ?bytes "\<lparr>webhook_secret = None\<rparr>" ?strict example_world "[]" PyNone]
          verified_valid verified_signed verified_bytes undecodable parsed malformed
    by (simp add: decoded example_world_def isoformat_example_time)
qed

text \<open>
  Claim C10.  The signature is checked before the body is parsed: every request whose
  signature verification fails is answered with status 403 and has no other effect,
  whatever the body and whatever the parser makes of it; and a request answered with
  status 400 has passed signature verification.
\<close>

theorem handle_webhook_signature_first:
  "(\<not> verify_signature self lib (request_body request)
        (Some (header_get (x_hub_signature_256 request))) \<longrightarrow>
      handle_webhook self lib w request = ([], Inl (HTTPException 403 ''Invalid signature''))) \<and>
   (snd (handle_webhook self lib w request) = Inl (HTTPException 400 detail) \<longrightarrow>
      verify_signature self lib (request_body request)
        (Some (header_get (x_hub_signature_256 request))))"
  by (auto simp: handle_webhook_def handle_webhook_try_def Let_def)

theorem handle_webhook_signature_first_witness:
  "handle_webhook \<lparr>webhook_secret = Some ''s3cret''\<rparr> example_library example_world
     \<lparr>request_body = ''not json'',
      x_hub_signature_256 =
        Some ''sha256=adbde1ce40c89c14215687d5d762a47df6dfaefcfad61e2e86718ffc8498571b'',
      x_github_event = Some ''pull_request''\<rparr> =
     ([], Inl (HTTPException 403 ''Invalid signature'')) \<and>
   verify_signature \<lparr>webhook_secret = Some ''s3cret''\<rparr> example_library ''not json''
     (Some ''sha256=4b182846723bcbd5b91346e9611da460827b94fdc3a46048f4fcc992ac54f99f'')"
proof -
  let ?forged =
    "\<lparr>request_body = ''not json'',
      x_hub_signature_256 =
        Some ''sha256=adbde1ce40c89c14215687d5d762a47df6dfaefcfad61e2e86718ffc8498571b'',
      x_github_event = Some ''pull_request''\<rparr>"
  let ?signed =
    "\<lparr>request_body = ''not json'',
      x_hub_signature_256 =
        Some ''sha256=4b182846723bcbd5b91346e9611da460827b94fdc3a46048f4fcc992ac54f99f'',
      x_github_event = Some ''pull_request''\<rparr>"
  have rejected:
    "\<not> verify_signature \<lparr>webhook_secret = Some ''s3cret''\<rparr> example_library
         (request_body ?forged) (Some (header_get (x_hub_signature_256 ?forged)))"
    using verify_signature_example_invalid by (simp add: header_get_def)
  have malformed:
    "snd (handle_webhook \<lparr>webhook_secret = Some ''s3cret''\<rparr> example_library example_world
            ?signed) = Inl (HTTPException 400 ''Invalid JSON payload'')"
    by (simp add: handle_webhook_example_not_json)
  show ?thesis
    using handle_webhook_signature_first
            [of "\<lparr>webhook_secret = Some ''s3cret''\<rparr>" example_library ?forged example_world
                "''Invalid JSON payload''"]
          handle_webhook_signature_first
            [of "\<lparr>webhook_secret = Some ''s3cret''\<rparr>" example_library ?signed example_world
                "''Invalid JSON payload''"]
          rejected malformed
    by (simp add: header_get_def)
qed

section \<open>Content Generator: properties\<close>

lemma example_pr_subject:
  "then_do (generate_fallback_email self lib w example_pr)
     (\<lambda>content. py_getitem content ''subject'') =
   Inr (PyStr (bell @ '' New PR #42: Add logging''))"
  by (simp add: generate_fallback_email_def then_do_def py_get_def py_getitem_def Let_def
        example_pr_def str_int_def str_nat_42)

text \<open>
  For PR #42 "Add logging" the fallback subject is not \<^verbatim>\<open>New PR #42: Add logging\<close>: it
  starts with the four bytes of U+1F514 and a space.
\<close>

theorem fallback_subject_counterexample:
  "then_do (generate_fallback_email example_agent example_library example_world example_pr)
     (\<lambda>content. py_getitem content ''subject'') \<noteq> Inr (PyStr ''New PR #42: Add logging'')"
  by (simp add: example_pr_subject bell_def)

text \<open>
  Claim C1, amended.  For every PR record, the fallback path renders the subject
  exactly as U+1F514, a space, and \<^verbatim>\<open>New PR #<number>: <title>\<close>, where number and title
  are formatted as an f-string formats them, an absent number reads \<^verbatim>\<open>Unknown\<close> and
  an absent title \<^verbatim>\<open>New Pull Request\<close>; for the record with number 42 and title
  "Add logging" the subject is U+1F514, a space, and \<^verbatim>\<open>New PR #42: Add logging\<close>.
\<close>

theorem fallback_subject:
  "then_do (generate_fallback_email self lib w (PyDict kvs))
     (\<lambda>content. py_getitem content ''subject'') =
     Inr (PyStr (bell @ '' New PR #'' @
                 py_format lib (field_or (PyDict kvs) [''number''] (PyStr ''Unknown'')) @ '': '' @
                 py_format lib (field_or (PyDict kvs) [''title''] (PyStr ''New Pull Request'')))) \<and>
   then_do (generate_fallback_email self lib w
              (PyDict [(''title'', PyStr ''Add logging''), (''number'', PyInt 42)]))
     (\<lambda>content. py_getitem content ''subject'') =
     Inr (PyStr (bell @ '' New PR #42: Add logging''))"
  by (simp add: generate_fallback_email_def then_do_def py_get_def py_getitem_def field_or_def
        Let_def str_int_def str_nat_42 split: option.splits)

text \<open>
  Claim C4.  The fallback rendering is deterministic: for every PR record, two runs of
  the fallback renderer of one agent on that record, in two worlds that agree on the
  reading of the clock (the generation timestamp), give the same result, subject and
  body alike, whatever else differs between the worlds (the backend, the mail transport,
  later readings of the clock).
\<close>

theorem generate_fallback_email_reproducible:
  "utcnow w 0 = utcnow w' 0 \<Longrightarrow>
   generate_fallback_email self lib w pr_data = generate_fallback_email self lib w' pr_data"
  by (simp add: generate_fallback_email_def)

theorem generate_fallback_email_reproducible_witness:
  "generate_fallback_email example_agent example_library example_world example_pr =
   generate_fallback_email example_agent example_library (example_world_answering ''{}'')
     example_pr"
proof -
  have same_reading: "utcnow example_world 0 = utcnow (example_world_answering ''{}'') 0"
    by (simp add: example_world_def example_world_answering_def)
  show ?thesis
    by (rule generate_fallback_email_reproducible [OF same_reading])
qed

lemma fallback_body_nonempty:
  "fallback_body self lib a b c d e f g now \<noteq> []"
  by (simp add: fallback_body_def nl_def)

lemma generate_fallback_email_dict:
  "\<exists>subject body.
     generate_fallback_email self lib w (PyDict kvs) =
       Inr (PyDict [(''subject'', PyStr subject), (''body'', PyStr body)]) \<and>
     subject \<noteq> [] \<and> body \<noteq> []"
  by (simp add: generate_fallback_email_def then_do_def py_get_def Let_def bell_def
        fallback_body_nonempty)

lemma generate_pr_email_content_cases:
  "generate_pr_email_content self lib w pr_data =
     (case build_prompt self lib pr_data of
        Inl e \<Rightarrow> generate_fallback_email self lib w pr_data
      | Inr prompt \<Rightarrow>
          (case chat_completion w (deployment_name self) prompt of
             Inl e \<Rightarrow> generate_fallback_email self lib w pr_data
           | Inr ai_response \<Rightarrow>
               (case parse_ai_response lib ai_response of
                  Inl e \<Rightarrow> generate_fallback_email self lib w pr_data
                | Inr email_content \<Rightarrow> Inr email_content)))"
proof -
  have twice: "(case generate_fallback_email self lib w pr_data of
                  Inl e \<Rightarrow> generate_fallback_email self lib w pr_data
                | Inr c \<Rightarrow> Inr c) = generate_fallback_email self lib w pr_data"
    by (simp split: sum.splits)
  show ?thesis
    unfolding generate_pr_email_content_def generate_pr_email_content_try_def then_do_def
    by (simp add: twice split: sum.splits)
qed

lemma parse_ai_response_dict:
  "json_loads lib text = Inr (PyDict answer) \<Longrightarrow>
   parse_ai_response lib (Some text) =
     (if ''subject'' \<in> fst ` set answer \<and> ''body'' \<in> fst ` set answer
      then Inr (PyDict answer) else Inl ValueError)"
  by (simp add: parse_ai_response_def then_do_def)

lemma parse_ai_response_error:
  "json_loads lib text = Inl e \<Longrightarrow> parse_ai_response lib (Some text) = Inl e"
  by (simp add: parse_ai_response_def then_do_def)

lemma build_prompt_example:
  "build_prompt example_agent example_library example_pr =
     Inr (prompt_text example_agent example_library (PyStr ''Add logging'') (PyInt 42)
            (PyStr ''alice'') (PyStr ''feature/log'') (PyStr ''main'')
            (PyStr ''Log every request.'') ''Not specified''
            (PyStr ''https://github.com/example/repo/pull/42''))"
  by (simp add: build_prompt_def then_do_def py_get_def example_pr_def)

lemma example_library_json_loads: "json_loads example_library = example_json_loads"
  by (simp add: example_library_def)

lemma chat_completion_answering:
  "chat_completion (example_world_answering text) deployment prompt = Inr (Some text)"
  by (simp add: example_world_answering_def)

lemma chat_completion_example_world:
  "chat_completion example_world deployment prompt = Inl (OtherException ''timeout'')"
  by (simp add: example_world_def)

lemma example_json_loads_empty_content:
  "example_json_loads example_json_empty_content =
     Inr (PyDict [(''subject'', PyStr []), (''body'', PyStr [])])"
  by (simp add: example_json_loads_def) (simp add: example_json_empty_content_def)

lemma example_json_loads_subject_only:
  "example_json_loads example_json_subject_only = Inr (PyDict [(''subject'', PyStr ''PR 42'')])"
  by (simp add: example_json_loads_def)
     (simp add: example_json_subject_only_def example_json_empty_content_def dq_def)

lemma example_json_loads_content:
  "example_json_loads example_json_content =
     Inr (PyDict [(''subject'', PyStr ''PR 42''), (''body'', PyStr ''<p>Please review.</p>'')])"
  by (simp add: example_json_loads_def)
     (simp add: example_json_content_def example_json_subject_only_def
        example_json_empty_content_def dq_def)

text \<open>
  When the backend answers with the JSON object whose \<^verbatim>\<open>subject\<close> and \<^verbatim>\<open>body\<close> are
  both the empty string, the generator returns that object: the subject of the result
  is empty.
\<close>

theorem generate_pr_email_content_empty_counterexample:
  "then_do (generate_pr_email_content example_agent example_library
              (example_world_answering example_json_empty_content) example_pr)
     (\<lambda>content. py_getitem content ''subject'') = Inr (PyStr [])"
  by (simp add: generate_pr_email_content_cases build_prompt_example chat_completion_answering
        parse_ai_response_def then_do_def example_library_json_loads
        example_json_loads_empty_content py_getitem_def)

text \<open>
  Claim C3, amended.  For every PR record, \<open>generate_pr_email_content\<close> returns
  normally, and the fallback content has both keys with non-empty string values.  The
  result is the fallback content when the prompt cannot be built, when the backend
  raises, when its answer is not valid JSON, and when the answer is a JSON object that
  lacks \<^verbatim>\<open>subject\<close> or \<^verbatim>\<open>body\<close>.  When the answer is a JSON object with both keys,
  the result is that object as parsed: it has both keys, and their values are not
  checked (they may be empty, or no strings at all).
\<close>

theorem generate_pr_email_content_total:
  "(\<exists>content. generate_pr_email_content self lib w (PyDict kvs) = Inr content) \<and>
   (\<exists>subject body.
      generate_fallback_email self lib w (PyDict kvs) =
        Inr (PyDict [(''subject'', PyStr subject), (''body'', PyStr body)]) \<and>
      subject \<noteq> [] \<and> body \<noteq> []) \<and>
   (build_prompt self lib (PyDict kvs) = Inl e0 \<longrightarrow>
      generate_pr_email_content self lib w (PyDict kvs) =
        generate_fallback_email self lib w (PyDict kvs)) \<and>
   (build_prompt self lib (PyDict kvs) = Inr prompt \<and>
    chat_completion w (deployment_name self) prompt = Inl e1 \<longrightarrow>
      generate_pr_email_content self lib w (PyDict kvs) =
        generate_fallback_email self lib w (PyDict kvs)) \<and>
   (build_prompt self lib (PyDict kvs) = Inr prompt \<and>
    chat_completion w (deployment_name self) prompt = Inr (Some text) \<and>
    json_loads lib text = Inl e2 \<longrightarrow>
      generate_pr_email_content self lib w (PyDict kvs) =
        generate_fallback_email self lib w (PyDict kvs)) \<and>
   (build_prompt self lib (PyDict kvs) = Inr prompt \<and>
    chat_completion w (deployment_name self) prompt = Inr (Some text) \<and>
    json_loads lib text = Inr (PyDict answer) \<and>
    (''subject'' \<notin> fst ` set answer \<or> ''body'' \<notin> fst ` set answer) \<longrightarrow>
      generate_pr_email_content self lib w (PyDict kvs) =
        generate_fallback_email self lib w (PyDict kvs)) \<and>
   (build_prompt self lib (PyDict kvs) = Inr prompt \<and>
    chat_completion w (deployment_name self) prompt = Inr (Some text) \<and>
    json_loads lib text = Inr (PyDict answer) \<and>
    ''subject'' \<in> fst ` set answer \<and> ''body'' \<in> fst ` set answer \<longrightarrow>
      generate_pr_email_content self lib w (PyDict kvs) = Inr (PyDict answer))"
proof -
  obtain subject body where fallback:
    "generate_fallback_email self lib w (PyDict kvs) =
       Inr (PyDict [(''subject'', PyStr subject), (''body'', PyStr body)])"
    and nonempty: "subject \<noteq> []" "body \<noteq> []"
    using generate_fallback_email_dict by blast
  have total: "\<exists>content. generate_pr_email_content self lib w (PyDict kvs) = Inr content"
    by (simp add: generate_pr_email_content_cases fallback split: sum.splits)
  have no_prompt: "build_prompt self lib (PyDict kvs) = Inl e0 \<longrightarrow>
      generate_pr_email_content self lib w (PyDict kvs) =
        generate_fallback_email self lib w (PyDict kvs)"
    by (simp add: generate_pr_email_content_cases)
  have raises: "build_prompt self lib (PyDict kvs) = Inr prompt \<and>
    chat_completion w (deployment_name self) prompt = Inl e1 \<longrightarrow>
      generate_pr_email_content self lib w (PyDict kvs) =
        generate_fallback_email self lib w (PyDict kvs)"
    by (simp add: generate_pr_email_content_cases)
  have malformed: "build_prompt self lib (PyDict kvs) = Inr prompt \<and>
    chat_completion w (deployment_name self) prompt = Inr (Some text) \<and>
    json_loads lib text = Inl e2 \<longrightarrow>
      generate_pr_email_content self lib w (PyDict kvs) =
        generate_fallback_email self lib w (PyDict kvs)"
    by (simp add: generate_pr_email_content_cases parse_ai_response_error)
  have lacks: "build_prompt self lib (PyDict kvs) = Inr prompt \<and>
    chat_completion w (deployment_name self) prompt = Inr (Some text) \<and>
    json_loads lib text = Inr (PyDict answer) \<and>
    (''subject'' \<notin> fst ` set answer \<or> ''body'' \<notin> fst ` set answer) \<longrightarrow>
      generate_pr_email_content self lib w (PyDict kvs) =
        generate_fallback_email self lib w (PyDict kvs)"
    by (auto simp: generate_pr_email_content_cases parse_ai_response_dict)
  have both: "build_prompt self lib (PyDict kvs) = Inr prompt \<and>
    chat_completion w (deployment_name self) prompt = Inr (Some text) \<and>
    json_loads lib text = Inr (PyDict answer) \<and>
    ''subject'' \<in> fst ` set answer \<and> ''body'' \<in> fst ` set answer \<longrightarrow>
      generate_pr_email_content self lib w (PyDict kvs) = Inr (PyDict answer)"
    by (simp add: generate_pr_email_content_cases parse_ai_response_dict)
  from fallback nonempty have usable:
    "\<exists>subject body.
      generate_fallback_email self lib w (PyDict kvs) =
        Inr (PyDict [(''subject'', PyStr subject), (''body'', PyStr body)]) \<and>
      subject \<noteq> [] \<and> body \<noteq> []"
    by blast
  from total usable no_prompt raises malformed lacks both show ?thesis
    by (intro conjI)
qed

theorem generate_pr_email_content_total_witness:
  "generate_pr_email_content example_agent example_library example_world example_pr =
     generate_fallback_email example_agent example_library example_world example_pr \<and>
   generate_pr_email_content example_agent example_library
       (example_world_answering ''not json'') example_pr =
     generate_fallback_email example_agent example_library
       (example_world_answering ''not json'') example_pr \<and>
   generate_pr_email_content example_agent example_library
       (example_world_answering example_json_subject_only) example_pr =
     generate_fallback_email example_agent example_library
       (example_world_answering example_json_subject_only) example_pr \<and>
   generate_pr_email_content example_agent example_library
       (example_world_answering example_json_content) example_pr =
     Inr (PyDict [(''subject'', PyStr ''PR 42''), (''body'', PyStr ''<p>Please review.</p>'')])"
proof -
  let ?kvs =
    "[(''title'', PyStr ''Add logging''),
      (''number'', PyInt 42),
      (''author'', PyStr ''alice''),
      (''url'', PyStr ''https://github.com/example/repo/pull/42''),
      (''description'', PyStr ''Log every request.''),
      (''branch_from'', PyStr ''feature/log''),
      (''branch_to'', PyStr ''main''),
      (''files_changed'', PyList [])]"
  let ?prompt =
    "prompt_text example_agent example_library (PyStr ''Add logging'') (PyInt 42)
       (PyStr ''alice'') (PyStr ''feature/log'') (PyStr ''main'')
       (PyStr ''Log every request.'') ''Not specified''
       (PyStr ''https://github.com/example/repo/pull/42'')"
  have pr_record: "example_pr = PyDict ?kvs"
    by (simp add: example_pr_def)
  have prompt: "build_prompt example_agent example_library (PyDict ?kvs) = Inr ?prompt"
    using build_prompt_example by (simp add: example_pr_def)
  have malformed: "json_loads example_library ''not json'' = Inl JSONDecodeError"
    by (simp add: example_library_json_loads example_json_loads_not_json)
  have subject_only:
    "json_loads example_library example_json_subject_only =
       Inr (PyDict [(''subject'', PyStr ''PR 42'')])"
    by (simp add: example_library_json_loads example_json_loads_subject_only)
  have content:
    "json_loads example_library example_json_content =
       Inr (PyDict [(''subject'', PyStr ''PR 42''), (''body'', PyStr ''<p>Please review.</p>'')])"
    by (simp add: example_library_json_loads example_json_loads_content)
  show ?thesis
    using generate_pr_email_content_total
            [of example_agent example_library example_world ?kvs JSONDecodeError ?prompt
                "OtherException ''timeout''" "''not json''" JSONDecodeError "[]"]
          generate_pr_email_content_total
            [of example_agent example_library "example_world_answering ''not json''" ?kvs
                JSONDecodeError ?prompt JSONDecodeError "''not json''" JSONDecodeError "[]"]
          generate_pr_email_content_total
            [of example_agent example_library
                "example_world_answering example_json_subject_only" ?kvs
                JSONDecodeError ?prompt JSONDecodeError example_json_subject_only
                JSONDecodeError "[(''subject'', PyStr ''PR 42'')]"]
          generate_pr_email_content_total
            [of example_agent example_library
                "example_world_answering example_json_content" ?kvs
                JSONDecodeError ?prompt JSONDecodeError example_json_content JSONDecodeError
                "[(''subject'', PyStr ''PR 42''), (''body'', PyStr ''<p>Please review.</p>'')]"]
    by (simp add: pr_record prompt malformed subject_only content chat_completion_answering
          chat_completion_example_world)
qed

section \<open>Event Extractor: well-formed payloads\<close>

lemma py_get_dict:
  "py_get (PyDict kvs) k d = Inr (case map_of kvs k of Some v \<Rightarrow> v | None \<Rightarrow> d)"
  by (simp add: py_get_def)

lemma dict_or_absent_sub:
  "dict_or_absent (PyDict kvs) [k] \<Longrightarrow>
   \<exists>sub. (case map_of kvs k of Some v \<Rightarrow> v | None \<Rightarrow> PyDict []) = PyDict sub"
  by (cases "map_of kvs k") (auto simp: dict_or_absent_def elim: is_dict.elims)

lemma lookup_path_sub:
  "(case map_of kvs k of Some v \<Rightarrow> v | None \<Rightarrow> PyDict []) = PyDict sub \<Longrightarrow>
   lookup_path (PyDict kvs) (k # k' # ks) = lookup_path (PyDict sub) (k' # ks)"
  by (cases "map_of kvs k") auto

lemma field_or_key:
  "field_or (PyDict kvs) [k] d = (case map_of kvs k of Some v \<Rightarrow> v | None \<Rightarrow> d)"
  by (simp add: field_or_def split: option.splits)

text \<open>
  Claim C8.  For every well-formed payload with action \<^verbatim>\<open>opened\<close>, the extractor
  returns a record whose title, author, source branch and target branch are the
  corresponding fields of the payload where these are present, and the defaults where
  they are absent: \<^verbatim>\<open>Untitled PR\<close>, \<^verbatim>\<open>Unknown\<close>, \<^verbatim>\<open>unknown-branch\<close> and \<^verbatim>\<open>main\<close>.
  A well-formed payload may lack any of its keys, at any depth (it may be structurally
  incomplete); what it has of the nested objects \<^verbatim>\<open>pull_request\<close>, \<^verbatim>\<open>repository\<close>,
  \<^verbatim>\<open>user\<close>, \<^verbatim>\<open>head\<close> and \<^verbatim>\<open>base\<close> are objects.
\<close>

theorem extract_pr_data_opened:
  assumes well_formed: "well_formed_payload payload"
    and opened: "lookup_path payload [''action''] = Some (PyStr ''opened'')"
  shows "\<exists>r. extract_pr_data now payload = Some (PyDict r) \<and>
     map_of r ''title'' =
       Some (field_or payload [''pull_request'', ''title''] (PyStr ''Untitled PR'')) \<and>
     map_of r ''author'' =
       Some (field_or payload [''pull_request'', ''user'', ''login''] (PyStr ''Unknown'')) \<and>
     map_of r ''branch_from'' =
       Some (field_or payload [''pull_request'', ''head'', ''ref''] (PyStr ''unknown-branch'')) \<and>
     map_of r ''branch_to'' =
       Some (field_or payload [''pull_request'', ''base'', ''ref''] (PyStr ''main''))"
proof -
  from well_formed obtain kvs where payload: "payload = PyDict kvs"
    by (auto simp: well_formed_payload_def elim: is_dict.elims)
  from opened have action: "map_of kvs ''action'' = Some (PyStr ''opened'')"
    by (simp add: payload split: option.splits)
  from well_formed obtain pr where
    pr: "(case map_of kvs ''pull_request'' of Some v \<Rightarrow> v | None \<Rightarrow> PyDict []) = PyDict pr"
    using dict_or_absent_sub by (auto simp: well_formed_payload_def payload)
  from well_formed obtain repository where
    repository: "(case map_of kvs ''repository'' of Some v \<Rightarrow> v | None \<Rightarrow> PyDict []) =
                   PyDict repository"
    using dict_or_absent_sub by (auto simp: well_formed_payload_def payload)
  note into_pr = lookup_path_sub [OF pr]
  from well_formed have "dict_or_absent (PyDict pr) [''user'']"
    "dict_or_absent (PyDict pr) [''head'']" "dict_or_absent (PyDict pr) [''base'']"
    by (simp_all add: well_formed_payload_def payload dict_or_absent_def into_pr
          del: lookup_path.simps)
  then obtain user head base where
    user: "(case map_of pr ''user'' of Some v \<Rightarrow> v | None \<Rightarrow> PyDict []) = PyDict user" and
    head: "(case map_of pr ''head'' of Some v \<Rightarrow> v | None \<Rightarrow> PyDict []) = PyDict head" and
    base: "(case map_of pr ''base'' of Some v \<Rightarrow> v | None \<Rightarrow> PyDict []) = PyDict base"
    using dict_or_absent_sub by metis
  have fields:
    "field_or (PyDict kvs) [''pull_request'', ''title''] d = field_or (PyDict pr) [''title''] d"
    "field_or (PyDict kvs) [''pull_request'', ''user'', ''login''] d = field_or (PyDict user) [''login''] d"
    "field_or (PyDict kvs) [''pull_request'', ''head'', ''ref''] d = field_or (PyDict head) [''ref''] d"
    "field_or (PyDict kvs) [''pull_request'', ''base'', ''ref''] d = field_or (PyDict base) [''ref''] d"
    for d
    by (simp_all add: field_or_def into_pr lookup_path_sub [OF user]
          lookup_path_sub [OF head] lookup_path_sub [OF base] del: lookup_path.simps)
  show ?thesis
    by (simp add: extract_pr_data_def extract_pr_data_try_def then_do_def py_get_dict payload
          action pr repository user head base fields field_or_key)
qed


theorem extract_pr_data_opened_witness:
  "(\<exists>r. extract_pr_data example_time example_payload = Some (PyDict r) \<and>
      map_of r ''title'' = Some (PyStr ''Add logging'') \<and>
      map_of r ''author'' = Some (PyStr ''alice'') \<and>
      map_of r ''branch_from'' = Some (PyStr ''feature/log'') \<and>
      map_of r ''branch_to'' = Some (PyStr ''main'')) \<and>
   (\<exists>r. extract_pr_data example_time (PyDict [(''action'', PyStr ''opened'')]) =
        Some (PyDict r) \<and>
      map_of r ''title'' = Some (PyStr ''Untitled PR'') \<and>
      map_of r ''author'' = Some (PyStr ''Unknown'') \<and>
      map_of r ''branch_from'' = Some (PyStr ''unknown-branch'') \<and>
      map_of r ''branch_to'' = Some (PyStr ''main''))"
proof -
  have full: "well_formed_payload example_payload"
    by (simp add: well_formed_payload_def dict_or_absent_def example_payload_def)
  have full_opened: "lookup_path example_payload [''action''] = Some (PyStr ''opened'')"
    by (simp add: example_payload_def)
  have bare: "well_formed_payload (PyDict [(''action'', PyStr ''opened'')])"
    by (simp add: well_formed_payload_def dict_or_absent_def)
  have bare_opened:
    "lookup_path (PyDict [(''action'', PyStr ''opened'')]) [''action''] = Some (PyStr ''opened'')"
    by simp
  show ?thesis
    using extract_pr_data_opened [OF full full_opened, of example_time]
          extract_pr_data_opened [OF bare bare_opened, of example_time]
    by (simp add: field_or_def example_payload_def)
qed

end
